theory Spec2Isabelle
  imports Main "HOL-Library.Word"
begin

unbundle bit_operations_syntax

section \<open>Python values and exceptions\<close>

text \<open>
  A Python \<open>bytes\<close>/\<open>bytearray\<close> value is a list of 8-bit words; Python integers are
  unbounded (\<open>int\<close>), indices that never go negative are \<open>nat\<close>. Every exception
  the modelled code can raise is a constructor of \<open>py_error\<close>, and a function that can
  raise returns \<open>py_error + 'a\<close>.
\<close>

type_synonym byte = "8 word"

datatype py_error = StructError | ValueError | IndexError | ZeroDivisionError

definition getitem :: "'a list \<Rightarrow> nat \<Rightarrow> py_error + 'a" where
  \<comment> \<open>\<open>xs[i]\<close> for an index that is not negative: IndexError out of range.\<close>
  "getitem xs i = (if i < length xs then Inr (xs ! i) else Inl IndexError)"

section \<open>kettle\_xiaomi.py: the status record\<close>

datatype Mode = Mode_IDLE | Mode_HEATING | Mode_COOLING | Mode_KEEP_WARM

datatype LEDMode = LEDMode_BOIL | LEDMode_KEEP_WARM | LEDMode_NONE

datatype KeepWarmType = BOIL_AND_COOLDOWN | HEAT_TO_TEMP

text \<open>Calling an \<open>Enum\<close> class on a value that is no member raises ValueError.\<close>

definition Mode_of :: "int \<Rightarrow> py_error + Mode" where
  "Mode_of v =
     (if v = 0x00 then Inr Mode_IDLE
      else if v = 0x01 then Inr Mode_HEATING
      else if v = 0x02 then Inr Mode_COOLING
      else if v = 0x03 then Inr Mode_KEEP_WARM
      else Inl ValueError)"

definition LEDMode_of :: "int \<Rightarrow> py_error + LEDMode" where
  "LEDMode_of v =
     (if v = 0x01 then Inr LEDMode_BOIL
      else if v = 0x02 then Inr LEDMode_KEEP_WARM
      else if v = 0xFF then Inr LEDMode_NONE
      else Inl ValueError)"

definition KeepWarmType_of :: "int \<Rightarrow> py_error + KeepWarmType" where
  "KeepWarmType_of v =
     (if v = 0x00 then Inr BOIL_AND_COOLDOWN
      else if v = 0x01 then Inr HEAT_TO_TEMP
      else Inl ValueError)"

record MiKettleState =
  mode :: Mode
  led_mode :: LEDMode
  temperature :: int
  target_temperature :: int
  keep_warm_type :: KeepWarmType
  keep_warm_time :: int

text \<open>
  \<open>struct.unpack\<close> with a little-endian format (\<open><\<close>: standard sizes, no padding).
  Only the two codes of \<open>FORMAT\<close> are modelled: \<open>B\<close> (one unsigned byte) and \<open>H\<close>
  (two bytes, low byte first). \<open>unpack\<close> raises \<open>struct.error\<close> unless the buffer has
  exactly \<open>calcsize\<close> bytes.
\<close>

datatype fmt_code = FmtB | FmtH

fun code_size :: "fmt_code \<Rightarrow> nat" where
  "code_size FmtB = 1"
| "code_size FmtH = 2"

fun calcsize :: "fmt_code list \<Rightarrow> nat" where
  "calcsize [] = 0"
| "calcsize (c # cs) = code_size c + calcsize cs"

fun unpack_fields :: "fmt_code list \<Rightarrow> byte list \<Rightarrow> int list" where
  "unpack_fields [] bs = []"
| "unpack_fields (FmtB # cs) (b # bs) = uint b # unpack_fields cs bs"
| "unpack_fields (FmtH # cs) (lo # hi # bs) = (uint lo + 256 * uint hi) # unpack_fields cs bs"
| "unpack_fields cs bs = []"

definition unpack :: "fmt_code list \<Rightarrow> byte list \<Rightarrow> py_error + int list" where
  "unpack fmt buffer =
     (if length buffer \<noteq> calcsize fmt then Inl StructError
      else Inr (unpack_fields fmt buffer))"

definition FORMAT :: "fmt_code list" where
  \<comment> \<open>\<open>FORMAT = '<BBHBBBHBBB'\<close>\<close>
  "FORMAT = [FmtB, FmtB, FmtH, FmtB, FmtB, FmtB, FmtH, FmtB, FmtB, FmtB]"

definition from_bytes :: "byte list \<Rightarrow> py_error + MiKettleState" where
  "from_bytes response =
     (case unpack FORMAT response of
        Inl e \<Rightarrow> Inl e
      | Inr vals \<Rightarrow>
          (case vals of
             [mode_v, led_mode_v, r0, target_temp, current_temp,
              keep_warm_type_v, keep_warm_time_v, r1, r2, r3] \<Rightarrow>
               (case Mode_of mode_v of
                  Inl e \<Rightarrow> Inl e
                | Inr m \<Rightarrow>
                    (case LEDMode_of led_mode_v of
                       Inl e \<Rightarrow> Inl e
                     | Inr l \<Rightarrow>
                         (case KeepWarmType_of keep_warm_type_v of
                            Inl e \<Rightarrow> Inl e
                          | Inr k \<Rightarrow>
                              Inr \<lparr>mode = m, led_mode = l,
                                   temperature = current_temp,
                                   target_temperature = target_temp,
                                   keep_warm_type = k,
                                   keep_warm_time = keep_warm_time_v\<rparr>)))
           | _ \<Rightarrow> Inl ValueError))"

section \<open>kettle\_xiaomi.py: XiaomiCipherMixin\<close>

text \<open>
  \<open>_cipher_init\<close>: the table starts as the bytes 0..255; the loop over
  \<open>range(0, 256)\<close> is a recursion over the list of its indices, carrying \<open>j\<close> and the
  table. \<open>key[i % keyLen]\<close> raises ZeroDivisionError for an empty key. The tuple
  assignment \<open>perm[i], perm[j] = perm[j], perm[i]\<close> reads both entries first, then
  stores into \<open>perm[i]\<close>, then into \<open>perm[j]\<close>.
\<close>

fun cipher_init_loop :: "byte list \<Rightarrow> nat list \<Rightarrow> nat \<Rightarrow> byte list \<Rightarrow> py_error + byte list" where
  "cipher_init_loop key [] j perm = Inr perm"
| "cipher_init_loop key (i # is) j perm =
     (case getitem perm i of
        Inl e \<Rightarrow> Inl e
      | Inr perm_i \<Rightarrow>
          if length key = 0 then Inl ZeroDivisionError
          else
            (case getitem key (i mod length key) of
               Inl e \<Rightarrow> Inl e
             | Inr k \<Rightarrow>
                 (let j' = (j + unat perm_i + unat k) AND 0xff in
                  case getitem perm j' of
                    Inl e \<Rightarrow> Inl e
                  | Inr perm_j \<Rightarrow> cipher_init_loop key is j' (perm[i := perm_j, j' := perm_i]))))"

definition cipher_init :: "byte list \<Rightarrow> py_error + byte list" where
  "cipher_init key =
     cipher_init_loop key [0..<256] 0 (map (\<lambda>i. word_of_nat (i AND 0xff)) [0..<256])"

text \<open>
  \<open>_cipher_crypt\<close> mutates the table it is given. The model returns the output together
  with the table as the call leaves it. The loop over \<open>range(0, len(input))\<close> reads
  \<open>input[i]\<close> in order, which is a recursion over the input. The output byte is computed
  on Python integers: \<open>input[i] ^ perm[idx]\<close>, then \<open>& 0xff\<close>.
\<close>

fun cipher_crypt_loop ::
  "byte list \<Rightarrow> nat \<Rightarrow> nat \<Rightarrow> byte list \<Rightarrow> byte list \<Rightarrow> py_error + (byte list \<times> byte list)" where
  "cipher_crypt_loop [] index1 index2 perm output = Inr (output, perm)"
| "cipher_crypt_loop (x # xs) index1 index2 perm output =
     (let index1' = (index1 + 1) AND 0xff in
      case getitem perm index1' of
        Inl e \<Rightarrow> Inl e
      | Inr p1 \<Rightarrow>
          (let index2' = (index2 + unat p1) AND 0xff in
           case getitem perm index2' of
             Inl e \<Rightarrow> Inl e
           | Inr p2 \<Rightarrow>
               (let perm' = perm[index1' := p2, index2' := p1] in
                case getitem perm' index1' of
                  Inl e \<Rightarrow> Inl e
                | Inr q1 \<Rightarrow>
                    (case getitem perm' index2' of
                       Inl e \<Rightarrow> Inl e
                     | Inr q2 \<Rightarrow>
                         (let idx = (unat q1 + unat q2) AND 0xff in
                          case getitem perm' idx of
                            Inl e \<Rightarrow> Inl e
                          | Inr kb \<Rightarrow>
                              (let output_byte = uint x XOR uint kb in
                               cipher_crypt_loop xs index1' index2' perm'
                                 (output @ [word_of_int (output_byte AND 0xff)])))))))"

definition cipher_crypt :: "byte list \<Rightarrow> byte list \<Rightarrow> py_error + (byte list \<times> byte list)" where
  "cipher_crypt input perm = cipher_crypt_loop input 0 0 perm []"

definition cipher :: "byte list \<Rightarrow> byte list \<Rightarrow> py_error + byte list" where
  "cipher key input =
     (case cipher_init key of
        Inl e \<Rightarrow> Inl e
      | Inr perm \<Rightarrow>
          (case cipher_crypt input perm of
             Inl e \<Rightarrow> Inl e
           | Inr (output, perm') \<Rightarrow> Inr output))"

text \<open>
  The keystream that \<open>_cipher_crypt\<close> draws from a table, written without the input:
  the \<open>n\<close> key bytes and the table after \<open>n\<close> steps. It is the reference the loop
  above is compared with; it is not part of the source.
\<close>

fun keystream :: "nat \<Rightarrow> nat \<Rightarrow> nat \<Rightarrow> byte list \<Rightarrow> byte list \<times> byte list" where
  "keystream 0 index1 index2 perm = ([], perm)"
| "keystream (Suc n) index1 index2 perm =
     (let index1' = (index1 + 1) AND 0xff;
          index2' = (index2 + unat (perm ! index1')) AND 0xff;
          perm' = perm[index1' := perm ! index2', index2' := perm ! index1'];
          kb = perm' ! ((unat (perm' ! index1') + unat (perm' ! index2')) AND 0xff);
          rest = keystream n index1' index2' perm'
      in (kb # fst rest, snd rest))"

section \<open>kettle\_xiaomi.py: XiaomiKettle.handle and \_notify\_state\<close>

text \<open>
  The kettle as \<open>handle\<close> sees it. \<open>unique_id\<close>, \<open>linkquality\<close> and
  \<open>transform_value\<close> belong to the base class \<open>Device\<close> (devices/base.py, not among
  the sources); they are fields of the record, so every result holds for any of them.
\<close>

record 'v kettle =
  unique_id :: string
  linkquality :: 'v
  transform_value :: "int \<Rightarrow> 'v"

definition SENSOR_DOMAIN :: string where
  \<comment> \<open>Modelled from the spec: the constant \<open>SENSOR_DOMAIN\<close> of devices/base.py, which is
      not among the sources. The spec names the entity domains "sensor" and "switch",
      and ble2mqtt.py tests \<open>cls == 'sensor'\<close>.\<close>
  "SENSOR_DOMAIN = ''sensor''"

definition TEMPERATURE_ENTITY :: string where
  "TEMPERATURE_ENTITY = ''temperature''"

definition SEND_INTERVAL :: int where
  "SEND_INTERVAL = 30"

definition ACTIVE_SLEEP_INTERVAL :: nat where
  "ACTIVE_SLEEP_INTERVAL = 1"

definition entities :: "(string \<times> (string \<times> string) list list) list" where
  \<comment> \<open>The dictionary of the \<open>entities\<close> property, as an association list; the unit is
      the degree sign (two bytes in UTF-8) followed by C.\<close>
  "entities =
     [(SENSOR_DOMAIN,
       [[(''name'', TEMPERATURE_ENTITY),
         (''device_class'', ''temperature''),
         (''unit_of_measurement'', [CHR 0xC2, CHR 0xB0, CHR ''C''])]])]"

datatype 'v kettle_event =
    UpdateDeviceData
  | Publish string "(string \<times> 'v) list"
  | Sleep nat

definition notify_state :: "'v kettle \<Rightarrow> MiKettleState \<Rightarrow> 'v kettle_event list" where
  \<comment> \<open>\<open>state\<close> is the dictionary built by the loop over the one pair
      \<open>('temperature', self._state.temperature)\<close>; \<open>json.dumps\<close> of it is the payload,
      kept here as the dictionary itself.\<close>
  "notify_state self st =
     (let sensors = (case map_of entities ''sensor'' of None \<Rightarrow> [] | Some es \<Rightarrow> es);
          state = (if list_ex (\<lambda>x. map_of x ''name'' = Some ''temperature'') sensors
                   then [(''temperature'', transform_value self (temperature st))]
                   else [])
      in if state \<noteq> []
         then [Publish (unique_id self @ ''/'' @ ''state'')
                 (state @ [(''linkquality'', linkquality self)])]
         else [])"

text \<open>
  \<open>time.time()\<close> returns a Python float, an IEEE 754 double. A finite double is kept
  as a mantissa and an exponent, with the value \<open>mantissa * 2 ^ exponent\<close>; for the
  doubles themselves the mantissa has at most 53 bits and the exponent is at least
  \<open>-1074\<close>. The difference of two doubles is the exact difference rounded to 53 bits,
  to nearest, ties to even. (A difference too large for a double is infinite in Python
  and a large number here; both are above any integer, and that comparison is all the
  code does with it.) Python compares a float with an integer exactly.
\<close>

datatype double = Double (mantissa: int) (exponent: int)

fun bit_length :: "nat \<Rightarrow> nat" where
  "bit_length n = (if n = 0 then 0 else Suc (bit_length (n div 2)))"

definition round_nearest_even :: "nat \<Rightarrow> nat \<Rightarrow> nat" where
  \<comment> \<open>\<open>a / 2 ^ s\<close> rounded to an integer, to nearest, ties to even\<close>
  "round_nearest_even a s =
     (let q = a div 2 ^ s; r = a mod 2 ^ s; half = 2 ^ (s - 1)
      in if half < r \<or> (r = half \<and> odd q) then q + 1 else q)"

definition round_double :: "int \<Rightarrow> int \<Rightarrow> double" where
  \<comment> \<open>the double nearest to \<open>m * 2 ^ e\<close>\<close>
  "round_double m e =
     (let a = nat \<bar>m\<bar>; n = bit_length a
      in if n \<le> 53 then Double m e
         else Double (sgn m * int (round_nearest_even a (n - 53))) (e + int (n - 53)))"

definition double_sub :: "double \<Rightarrow> double \<Rightarrow> double" where
  \<comment> \<open>\<open>x - y\<close> on floats\<close>
  "double_sub x y =
     (let e = min (exponent x) (exponent y)
      in round_double
           (mantissa x * 2 ^ nat (exponent x - e) - mantissa y * 2 ^ nat (exponent y - e)) e)"

definition double_gt_int :: "double \<Rightarrow> int \<Rightarrow> bool" where
  \<comment> \<open>\<open>x > n\<close> for a float \<open>x\<close> and an integer \<open>n\<close>\<close>
  "double_gt_int x n =
     (if 0 \<le> exponent x then n < mantissa x * 2 ^ nat (exponent x)
      else n * 2 ^ nat (- exponent x) < mantissa x)"

definition double_of_int :: "int \<Rightarrow> double" where
  \<comment> \<open>a whole number of seconds as a clock reading (exact below \<open>2 ^ 53\<close>)\<close>
  "double_of_int n = Double n 0"

text \<open>
  One pass of the \<open>while True\<close> of \<open>handle\<close>. What the pass cannot decide comes from
  outside: the value of \<open>self._state\<close> when the \<open>if\<close> reads it (set by the notification
  handler) and the two readings of \<open>time.time()\<close>, one in the condition and one stored
  in \<open>send_time\<close>. \<open>not send_time\<close> is Python truthiness: true for \<open>None\<close> and for
  a float that is zero. An instance of the dataclass \<open>MiKettleState\<close> is always true, so
  \<open>self._state\<close> is false exactly when it is \<open>None\<close>. The awaited calls
  (\<open>update_device_data\<close>, \<open>publish_topic\<close>, \<open>sleep\<close>) are events that return.
\<close>

record iteration_env =
  state_now :: "MiKettleState option"
  time_check :: double
  time_send :: double

definition falsy_time :: "double option \<Rightarrow> bool" where
  "falsy_time t = (case t of None \<Rightarrow> True | Some v \<Rightarrow> mantissa v = 0)"

definition send_due :: "double option \<Rightarrow> iteration_env \<Rightarrow> bool" where
  \<comment> \<open>\<open>self._state and (not send_time or (time.time() - send_time) > self.SEND_INTERVAL)\<close>\<close>
  "send_due send_time env =
     (state_now env \<noteq> None \<and>
      (falsy_time send_time \<or>
       double_gt_int (double_sub (time_check env) (the send_time)) SEND_INTERVAL))"

definition handle_iteration ::
  "'v kettle \<Rightarrow> double option \<Rightarrow> iteration_env \<Rightarrow> 'v kettle_event list \<times> double option" where
  "handle_iteration self send_time env =
     (if send_due send_time env
      then ([UpdateDeviceData] @ notify_state self (the (state_now env))
              @ [Sleep ACTIVE_SLEEP_INTERVAL],
            Some (time_send env))
      else ([UpdateDeviceData, Sleep ACTIVE_SLEEP_INTERVAL], send_time))"

fun handle_loop ::
  "'v kettle \<Rightarrow> double option \<Rightarrow> iteration_env list \<Rightarrow> 'v kettle_event list" where
  \<comment> \<open>\<open>handle\<close> run for as many passes as there are environments, from a given
      \<open>send_time\<close> (\<open>None\<close> at the start of \<open>handle\<close>).\<close>
  "handle_loop self send_time [] = []"
| "handle_loop self send_time (env # envs) =
     (case handle_iteration self send_time env of
        (evs, send_time') \<Rightarrow> evs @ handle_loop self send_time' envs)"

definition handle :: "'v kettle \<Rightarrow> iteration_env list \<Rightarrow> 'v kettle_event list" where
  "handle self envs = handle_loop self None envs"

fun is_publish :: "'v kettle_event \<Rightarrow> bool" where
  "is_publish (Publish topic payload) = True"
| "is_publish ev = False"

section \<open>ble2mqtt.py: the bridge\<close>

definition TOPIC_ROOT :: string where
  "TOPIC_ROOT = ''ble2mqtt''"

fun join_slash :: "string list \<Rightarrow> string" where
  \<comment> \<open>\<open>'/'.join(parts)\<close>\<close>
  "join_slash [] = []"
| "join_slash [p] = p"
| "join_slash (p # ps) = p @ ''/'' @ join_slash ps"

definition removeprefix :: "string \<Rightarrow> string \<Rightarrow> string" where
  \<comment> \<open>\<open>s.removeprefix(prefix)\<close>\<close>
  "removeprefix prefix s =
     (if take (length prefix) s = prefix then drop (length prefix) s else s)"

text \<open>
  A registered device, as far as the bridge reads it: a name that tells devices apart
  and its \<open>subscribed_topics\<close>. The registry is the list \<open>device_registry\<close>.
\<close>

record device =
  dev_name :: string
  subscribed_topics :: "string list"

definition Ble2Mqtt_subscribed_topics :: "device list \<Rightarrow> string list" where
  \<comment> \<open>the property \<open>Ble2Mqtt.subscribed_topics\<close>\<close>
  "Ble2Mqtt_subscribed_topics device_registry =
     concat (map (\<lambda>device. map (\<lambda>topic. join_slash [TOPIC_ROOT, topic])
                               (subscribed_topics device))
                 device_registry)"

subsection \<open>\_handle\_messages\<close>

record message =
  topic_name :: string
  payload :: string

text \<open>
  The value handed to \<open>process_topic\<close>: \<open>json.loads(message.payload)\<close>, and when that
  raises ValueError, \<open>message.payload.decode()\<close>. Both belong to the Python library;
  they are taken as partial functions on payloads, \<open>None\<close> where \<open>json.loads\<close> raises
  ValueError (which includes its UnicodeDecodeError) and where \<open>decode\<close> raises
  UnicodeDecodeError. Nothing catches the latter, so it ends \<open>_handle_messages\<close>.
\<close>

record 'v codec =
  json_loads :: "string \<rightharpoonup> 'v"
  decode :: "string \<rightharpoonup> 'v"

datatype dispatch_error = UnicodeDecodeError

definition payload_value :: "'v codec \<Rightarrow> string \<Rightarrow> dispatch_error + 'v" where
  "payload_value cd p =
     (case json_loads cd p of
        Some v \<Rightarrow> Inr v
      | None \<Rightarrow>
          (case decode cd p of
             Some v \<Rightarrow> Inr v
           | None \<Rightarrow> Inl UnicodeDecodeError))"

datatype 'v dispatch_event =
    Warning string string
  | ProcessTopic string string 'v
  | DispatchSleep nat

datatype dispatch_result =
    Done
  | Raised_NotImplementedError
  | Raised_UnicodeDecodeError
  | Looping

text \<open>
  The inner \<open>while True\<close> for one delivered message. Both \<open>continue\<close> statements are
  inside this loop, so each starts its next pass with the same message; only
  \<open>break\<close> and a raise leave it. The loop may run forever, so it is given fuel:
  one unit per pass, and \<open>Looping\<close> when the fuel is spent inside the loop. The answer
  of \<open>await device.client.is_connected()\<close> in pass \<open>k\<close> is \<open>is_connected k\<close>.
  \<open>process_topic\<close> is an event that returns.
\<close>

fun handle_message ::
  "nat \<Rightarrow> 'v codec \<Rightarrow> device list \<Rightarrow> message \<Rightarrow> (nat \<Rightarrow> bool) \<Rightarrow> nat \<Rightarrow>
   'v dispatch_event list \<times> dispatch_result" where
  "handle_message 0 cd device_registry msg is_connected k = ([], Looping)"
| "handle_message (Suc fuel) cd device_registry msg is_connected k =
     (if topic_name msg \<notin> set (Ble2Mqtt_subscribed_topics device_registry)
      then handle_message fuel cd device_registry msg is_connected (Suc k)
      else
        (let topic_wo_prefix = removeprefix (TOPIC_ROOT @ ''/'') (topic_name msg) in
         case find (\<lambda>d. topic_wo_prefix \<in> set (subscribed_topics d)) device_registry of
           None \<Rightarrow> ([], Raised_NotImplementedError)
         | Some dev \<Rightarrow>
             if \<not> is_connected k
             then (case handle_message fuel cd device_registry msg is_connected (Suc k) of
                     (evs, r) \<Rightarrow> (Warning topic_wo_prefix (payload msg) # evs, r))
             else
               (case payload_value cd (payload msg) of
                  Inl e \<Rightarrow> ([], Raised_UnicodeDecodeError)
                | Inr v \<Rightarrow> ([ProcessTopic (dev_name dev) topic_wo_prefix v], Done))))"

text \<open>
  The \<open>async for\<close> over the delivered messages: each message comes with the answers
  its \<open>is_connected\<close> calls get. After the inner loop is left by \<open>break\<close> comes
  \<open>sleep(1)\<close> and the next message; a raise ends the task; a message whose inner
  loop is not left in \<open>fuel\<close> passes keeps the task there.
\<close>

fun handle_messages ::
  "nat \<Rightarrow> 'v codec \<Rightarrow> device list \<Rightarrow> (message \<times> (nat \<Rightarrow> bool)) list \<Rightarrow>
   'v dispatch_event list \<times> dispatch_result" where
  "handle_messages fuel cd device_registry [] = ([], Done)"
| "handle_messages fuel cd device_registry ((msg, is_connected) # rest) =
     (case handle_message fuel cd device_registry msg is_connected 0 of
        (evs, Done) \<Rightarrow>
          (case handle_messages fuel cd device_registry rest of
             (evs', r) \<Rightarrow> (evs @ [DispatchSleep 1] @ evs', r))
      | (evs, r) \<Rightarrow> (evs, r))"


subsection \<open>\_connect\_forever\<close>

datatype mqtt_error =
    CancelledError
  | AccessRefusedError
  | ConnectionLostError
  | ConnectionCloseForcedError
  | OtherError

text \<open>
  What one pass of the \<open>while True\<close> meets at its three awaits inside \<open>try\<close>:
  \<open>connect\<close>, the publish of \<open>online\<close>, and \<open>connect_result.disconnect_reason\<close>;
  \<open>None\<close> is a normal return, \<open>Some e\<close> the exception raised there. The exception
  classes are taken as unrelated, so an exception is handled by the clause that names
  it. The publish of \<open>offline\<close> swallows its own failure.
\<close>

record attempt =
  connect_raises :: "mqtt_error option"
  publish_online_raises :: "mqtt_error option"
  disconnect_reason_raises :: "mqtt_error option"

datatype connect_event =
    Connect
  | Log string
  | PublishAvailability string
  | CreateManageDeviceTask string
  | AwaitDisconnectReason
  | ReconnectSleep nat

datatype connect_result = Returned | Propagated mqtt_error | NextAttempt

definition try_body :: "device list \<Rightarrow> attempt \<Rightarrow> connect_event list \<times> mqtt_error option" where
  "try_body device_registry a =
     (case connect_raises a of
        Some e \<Rightarrow> ([Connect], Some e)
      | None \<Rightarrow>
          (case publish_online_raises a of
             Some e \<Rightarrow> ([Connect, Log ''Connected'', PublishAvailability ''online''], Some e)
           | None \<Rightarrow>
               ([Connect, Log ''Connected'', PublishAvailability ''online'']
                  @ map (\<lambda>dev. CreateManageDeviceTask (dev_name dev)) device_registry
                  @ [Log ''Wait for network interruptions...'', AwaitDisconnectReason],
                disconnect_reason_raises a)))"

text \<open>
  \<open>_connect_forever\<close>, one pass per element of the list of attempts. \<open>NextAttempt\<close>
  says that the list ended with the loop at the top of \<open>while True\<close>, about to call
  \<open>connect\<close> again; \<open>Returned\<close> and \<open>Propagated\<close> say that the coroutine ended.
\<close>

fun connect_forever ::
  "nat \<Rightarrow> device list \<Rightarrow> attempt list \<Rightarrow> connect_event list \<times> connect_result" where
  "connect_forever reconnection_interval device_registry [] = ([], NextAttempt)"
| "connect_forever reconnection_interval device_registry (a # as) =
     (case try_body device_registry a of
        (evs, Some CancelledError) \<Rightarrow> (evs, Propagated CancelledError)
      | (evs, Some AccessRefusedError) \<Rightarrow>
          (case connect_forever reconnection_interval device_registry as of
             (evs', r) \<Rightarrow> (evs @ [Log ''Access refused''] @ evs', r))
      | (evs, Some ConnectionLostError) \<Rightarrow>
          (case connect_forever reconnection_interval device_registry as of
             (evs', r) \<Rightarrow>
               (evs @ [Log ''Connection lost. Will retry in %d seconds'',
                       ReconnectSleep reconnection_interval] @ evs', r))
      | (evs, Some ConnectionCloseForcedError) \<Rightarrow>
          (evs @ [Log ''Connection close forced''], Returned)
      | (evs, Some OtherError) \<Rightarrow>
          (evs @ [Log ''Unhandled exception during connecting'',
                  PublishAvailability ''offline''], Returned)
      | (evs, None) \<Rightarrow>
          (evs @ [PublishAvailability ''offline'', Log ''Disconnected''], Returned))"

definition connect_attempts :: "connect_event list \<Rightarrow> nat" where
  "connect_attempts evs = length (filter (\<lambda>ev. ev = Connect) evs)"

subsection \<open>manage\_device\<close>

datatype supervisor_error =
    PopKeyError
  | HandleCallTypeError
  | SendConfigError
  | InitError
  | SubscribeError
  | DisconnectedFutureError
  | HandleTaskError
  | UnsubscribeError

datatype task_end = TaskCancelled | TaskReturned | TaskRaised

text \<open>
  What one pass of the \<open>while True\<close> of \<open>manage_device\<close> meets: whether each awaited
  call raises, whether the call \<open>device.handle(self.publish_topic_callback)\<close> raises,
  whether the handle task is already done when the \<open>finally\<close> block looks at it, and
  how \<open>await task\<close> ends after \<open>task.cancel()\<close>. The call of \<open>handle\<close> raises
  TypeError for a device class whose \<open>handle\<close> has a second required parameter, as
  \<open>XiaomiKettle.handle(self, publish_topic, send_config, ...)\<close> has; the exception
  comes before \<open>create_task\<close> and before the entry in \<open>_device_handles\<close> is stored.
\<close>

record cycle =
  connect_fails :: bool
  send_config_fails :: bool
  init_fails :: bool
  subscribe_fails :: bool
  handle_call_fails :: bool
  disconnected_future_raises :: bool
  task_done :: bool
  await_task_end :: task_end
  unsubscribe_fails :: bool

datatype supervisor_event =
    DevConnect
  | DevLogException
  | DevSleep nat
  | SendDeviceConfig
  | DevInit
  | Subscribe "string list"
  | CreateHandleTask
  | AwaitDisconnected
  | CancelTask
  | AwaitTask
  | Unsubscribe "string list"

datatype supervisor_result = NextCycle | Died supervisor_error

definition device_topics :: "device \<Rightarrow> string list" where
  "device_topics dev = map (\<lambda>topic. join_slash [TOPIC_ROOT, topic]) (subscribed_topics dev)"

text \<open>
  The second \<open>try\<close> block: the events up to the point where it ends, the exception it
  ends with (if any), and the dictionary \<open>_device_handles\<close>, which gets the device's
  entry only when the handle task is created.
\<close>

definition serve_body ::
  "device \<Rightarrow> cycle \<Rightarrow> (string \<rightharpoonup> nat) \<Rightarrow> nat \<Rightarrow>
   supervisor_event list \<times> supervisor_error option \<times> (string \<rightharpoonup> nat)" where
  "serve_body dev c handles task =
     (if send_config_fails c then ([SendDeviceConfig], Some SendConfigError, handles)
      else if init_fails c then ([SendDeviceConfig, DevInit], Some InitError, handles)
      else if subscribe_fails c
        then ([SendDeviceConfig, DevInit, Subscribe (device_topics dev)],
              Some SubscribeError, handles)
      else if handle_call_fails c
        then ([SendDeviceConfig, DevInit, Subscribe (device_topics dev)],
              Some HandleCallTypeError, handles)
      else ([SendDeviceConfig, DevInit, Subscribe (device_topics dev),
             CreateHandleTask, AwaitDisconnected],
            (if disconnected_future_raises c then Some DisconnectedFutureError else None),
            handles(dev_name dev \<mapsto> task)))"

text \<open>
  \<open>manage_device\<close>, one pass per element of the list of cycles; \<open>NextCycle\<close> says
  that the list ended with the loop at the top of \<open>while True\<close>. In the \<open>finally\<close>
  block, \<open>pop(device)\<close> raises KeyError when the entry is missing; \<open>continue\<close> (taken
  when the task is done) leaves the block for the next pass and drops the exception
  the \<open>try\<close> block ended with; an exception raised inside the block replaces it; and
  when the block runs to its end, that exception is raised again.
\<close>

fun manage_device ::
  "device \<Rightarrow> (string \<rightharpoonup> nat) \<Rightarrow> cycle list \<Rightarrow> supervisor_event list \<times> supervisor_result" where
  "manage_device dev handles [] = ([], NextCycle)"
| "manage_device dev handles (c # cs) =
     (if connect_fails c
      then (case manage_device dev handles cs of
              (evs', r) \<Rightarrow> ([DevConnect, DevLogException, DevSleep 10] @ evs', r))
      else
        (case serve_body dev c handles (length cs) of
           (evs, exc, handles') \<Rightarrow>
             (case handles' (dev_name dev) of
                None \<Rightarrow> (DevConnect # evs, Died PopKeyError)
              | Some task \<Rightarrow>
                  (let handles'' = handles'(dev_name dev := None) in
                   if task_done c
                   then (case manage_device dev handles'' cs of
                           (evs', r) \<Rightarrow> (DevConnect # evs @ evs', r))
                   else if await_task_end c = TaskRaised
                   then (DevConnect # evs @ [CancelTask, AwaitTask], Died HandleTaskError)
                   else if unsubscribe_fails c
                   then (DevConnect # evs
                           @ [CancelTask, AwaitTask, Unsubscribe (device_topics dev)],
                         Died UnsubscribeError)
                   else
                     (case exc of
                        Some e \<Rightarrow>
                          (DevConnect # evs
                             @ [CancelTask, AwaitTask, Unsubscribe (device_topics dev)],
                           Died e)
                      | None \<Rightarrow>
                          (case manage_device dev handles'' cs of
                             (evs', r) \<Rightarrow>
                               (DevConnect # evs
                                  @ [CancelTask, AwaitTask, Unsubscribe (device_topics dev),
                                     DevSleep 3] @ evs', r)))))))"

section \<open>The status record: decoding\<close>

lemma calcsize_FORMAT: "calcsize FORMAT = 12"
  by (simp add: FORMAT_def)

lemma length_twelve:
  "length (bs :: byte list) = 12 \<Longrightarrow>
   \<exists>b0 b1 b2 b3 b4 b5 b6 b7 b8 b9 b10 b11.
     bs = [b0, b1, b2, b3, b4, b5, b6, b7, b8, b9, b10, b11]"
  by (simp add: numeral_eq_Suc length_Suc_conv) blast

text \<open>
  \<open>struct.error\<close> is raised for exactly the buffers that do not have 12 bytes: a buffer
  of 12 bytes is decoded, or rejected by an \<open>Enum\<close> class with ValueError.
\<close>

lemma from_bytes_struct_error_iff:
  "(from_bytes bs = Inl StructError) = (length bs \<noteq> 12)"
proof (cases "length bs = 12")
  case False
  then show ?thesis by (simp add: from_bytes_def unpack_def calcsize_FORMAT)
next
  case True
  from length_twelve [OF True] obtain b0 b1 b2 b3 b4 b5 b6 b7 b8 b9 b10 b11 where
    bs: "bs = [b0, b1, b2, b3, b4, b5, b6, b7, b8, b9, b10, b11]" by blast
  show ?thesis unfolding bs
    by (simp add: from_bytes_def unpack_def FORMAT_def Mode_of_def LEDMode_of_def
        KeepWarmType_of_def)
qed

text \<open>
  Claim C1, as amended. \<open>FORMAT\<close> describes 12 bytes, so the record of the claim is
  decoded once its thirteenth byte is left out: the 12-byte record
  \<open>01 01 00 00 64 2D 00 05 00 00 00 00\<close> yields mode HEATING, led\_mode BOIL,
  target\_temperature 100, temperature 45, keep\_warm\_type BOIL\_AND\_COOLDOWN and
  keep\_warm\_time 5.
\<close>

theorem from_bytes_twelve_byte_record:
  "from_bytes [0x01, 0x01, 0x00, 0x00, 0x64, 0x2D, 0x00, 0x05, 0x00, 0x00, 0x00, 0x00] =
     Inr \<lparr>mode = Mode_HEATING, led_mode = LEDMode_BOIL, temperature = 45,
          target_temperature = 100, keep_warm_type = BOIL_AND_COOLDOWN,
          keep_warm_time = 5\<rparr>"
  by (simp add: from_bytes_def unpack_def FORMAT_def Mode_of_def LEDMode_of_def
      KeepWarmType_of_def)

text \<open>
  Claim C1 as stated fails: the 13-byte record
  \<open>01 01 00 00 64 2D 00 05 00 00 00 00 00\<close> is not decoded, \<open>struct.unpack\<close> raises.
\<close>

theorem from_bytes_thirteen_byte_record_fails:
  "from_bytes [0x01, 0x01, 0x00, 0x00, 0x64, 0x2D, 0x00, 0x05,
               0x00, 0x00, 0x00, 0x00, 0x00] = Inl StructError"
  by (simp add: from_bytes_def unpack_def FORMAT_def)

text \<open>
  Claim C6, as amended: for every byte string whose length is not 12 bytes, decoding
  fails with \<open>struct.error\<close>; no record of another length is truncated or decoded.
\<close>

theorem from_bytes_wrong_length:
  "length bs \<noteq> 12 \<Longrightarrow> from_bytes bs = Inl StructError"
  by (simp add: from_bytes_struct_error_iff)

text \<open>The amended claim at a record of 11 bytes.\<close>

theorem from_bytes_wrong_length_witness:
  "length [0x00, 0xFF, 0x00, 0x00, 0x5A, 0x28, 0x00, 0x00, 0x00, 0x01, 0x18 :: byte] \<noteq> 12 \<and>
   from_bytes [0x00, 0xFF, 0x00, 0x00, 0x5A, 0x28, 0x00, 0x00, 0x00, 0x01, 0x18] =
     Inl StructError"
  using from_bytes_wrong_length
    [of "[0x00, 0xFF, 0x00, 0x00, 0x5A, 0x28, 0x00, 0x00, 0x00, 0x01, 0x18]"]
  by simp

text \<open>
  Claim C6 as stated fails: the record in the comment of \<open>from_bytes\<close>,
  \<open>00 ff 00 00 5a 28 00 00 00 01 18 00\<close>, has 12 bytes, not 13, and is decoded.
\<close>

theorem from_bytes_accepts_twelve_bytes:
  "length [0x00, 0xFF, 0x00, 0x00, 0x5A, 0x28, 0x00, 0x00, 0x00, 0x01, 0x18, 0x00 :: byte] \<noteq> 13 \<and>
   from_bytes [0x00, 0xFF, 0x00, 0x00, 0x5A, 0x28, 0x00, 0x00, 0x00, 0x01, 0x18, 0x00] =
     Inr \<lparr>mode = Mode_IDLE, led_mode = LEDMode_NONE, temperature = 40,
          target_temperature = 90, keep_warm_type = BOIL_AND_COOLDOWN,
          keep_warm_time = 0\<rparr>"
  by (simp add: from_bytes_def unpack_def FORMAT_def Mode_of_def LEDMode_of_def
      KeepWarmType_of_def)

section \<open>The cipher\<close>

lemma and_0xff_nat: "(n::nat) AND 0xff = n mod 256"
  using take_bit_eq_mask [of 8 n] by (simp add: take_bit_eq_mod mask_eq_exp_minus_1)

lemma and_0xff_int: "(n::int) AND 0xff = take_bit 8 n"
  using take_bit_eq_mask [of 8 n] by (simp add: mask_eq_exp_minus_1)

text \<open>The output byte, computed on integers and cut to 8 bits, is the XOR of the bytes.\<close>

lemma output_byte_xor:
  "word_of_int ((uint (x::byte) XOR uint (k::byte)) AND 0xff) = x XOR k"
proof -
  have "(word_of_int (take_bit 8 (uint x XOR uint k)) :: byte) = word_of_int (uint x XOR uint k)"
    by (rule bit_word_eqI) (simp add: bit_simps)
  also have "\<dots> = x XOR k"
    by (rule bit_word_eqI) (simp add: bit_simps)
  finally show ?thesis by (simp only: and_0xff_int)
qed

lemma getitem_in_range: "i < length xs \<Longrightarrow> getitem xs i = Inr (xs ! i)"
  by (simp add: getitem_def)

text \<open>
  The key schedule raises nothing for a key that is not empty, and leaves a table of 256
  entries: every index it uses is below 256.
\<close>

lemma cipher_init_loop_ok:
  "key \<noteq> [] \<Longrightarrow> length perm = 256 \<Longrightarrow> \<forall>i\<in>set is. i < 256 \<Longrightarrow>
   \<exists>perm'. cipher_init_loop key is j perm = Inr perm' \<and> length perm' = 256"
proof (induction "is" arbitrary: j perm)
  case Nil
  then show ?case by simp
next
  case (Cons i "is")
  define j' where "j' = (j + unat (perm ! i) + unat (key ! (i mod length key))) AND 0xff"
  have k: "i mod length key < length key" using Cons.prems(1) by simp
  have j: "j' < length perm" using Cons.prems(2) by (simp add: j'_def and_0xff_nat)
  have i: "i < length perm" using Cons.prems by simp
  have len: "length (perm[i := perm ! j', j' := perm ! i]) = 256"
    using Cons.prems(2) by simp
  have rest: "\<forall>i\<in>set is. i < 256" using Cons.prems(3) by simp
  from Cons.IH [OF Cons.prems(1) len rest]
  obtain perm' where
    "cipher_init_loop key is j' (perm[i := perm ! j', j' := perm ! i]) = Inr perm'"
    "length perm' = 256" by blast
  then show ?case
    using Cons.prems(1) k j i
    by (simp add: getitem_in_range Let_def flip: j'_def)
qed

lemma cipher_init_ok:
  "key \<noteq> [] \<Longrightarrow> \<exists>perm. cipher_init key = Inr perm \<and> length perm = 256"
  unfolding cipher_init_def
  by (rule cipher_init_loop_ok) simp_all

lemma cipher_init_empty_key: "cipher_init [] = Inl ZeroDivisionError"
  by (simp add: cipher_init_def upt_rec [of 0] getitem_def)

lemma length_keystream: "length (fst (keystream n i1 i2 perm)) = n"
  by (induction n arbitrary: i1 i2 perm) (simp_all add: Let_def)

text \<open>
  On a table of 256 entries \<open>_cipher_crypt\<close> raises nothing, and its output is the
  input XORed with the keystream of the table, which does not depend on the input.
\<close>

lemma cipher_crypt_loop_keystream:
  "length perm = 256 \<Longrightarrow>
   cipher_crypt_loop xs i1 i2 perm out =
     Inr (out @ map2 (XOR) xs (fst (keystream (length xs) i1 i2 perm)),
          snd (keystream (length xs) i1 i2 perm))"
proof (induction xs arbitrary: i1 i2 perm out)
  case Nil
  then show ?case by simp
next
  case (Cons x xs)
  define a where "a = Suc i1 AND 0xff"
  define b where "b = (i2 + unat (perm ! a)) AND 0xff"
  define perm' where "perm' = perm[a := perm ! b, b := perm ! a]"
  define c where "c = (unat (perm' ! a) + unat (perm' ! b)) AND 0xff"
  have a: "a < length perm" and b: "b < length perm"
    using Cons.prems by (simp_all add: a_def b_def and_0xff_nat)
  have len: "length perm' = 256" using Cons.prems by (simp add: perm'_def)
  have a': "a < length perm'" and b': "b < length perm'" and c': "c < length perm'"
    using len by (simp_all add: a_def b_def c_def and_0xff_nat)
  have step: "cipher_crypt_loop (x # xs) i1 i2 perm out =
      cipher_crypt_loop xs a b perm' (out @ [x XOR perm' ! c])"
    using a b a' b' c'
    by (simp add: getitem_in_range Let_def output_byte_xor flip: a_def b_def perm'_def c_def)
  have ks: "keystream (Suc (length xs)) i1 i2 perm =
     (perm' ! c # fst (keystream (length xs) a b perm'), snd (keystream (length xs) a b perm'))"
    by (simp add: Let_def flip: a_def b_def perm'_def c_def)
  show ?case
    using Cons.IH [OF len, of a b "out @ [x XOR perm' ! c]"] step ks by simp
qed

lemma map2_xor_twice:
  "length ks = length xs \<Longrightarrow> map2 (XOR) (map2 (XOR) xs ks) ks = (xs :: byte list)"
proof (induction xs arbitrary: ks)
  case Nil
  then show ?case by simp
next
  case (Cons x xs)
  then obtain k ks' where "ks = k # ks'" by (cases ks) auto
  with Cons show ?case by (simp add: xor.assoc)
qed

lemma cipher_keystream:
  assumes "cipher_init key = Inr perm" "length perm = 256"
  shows "cipher key input = Inr (map2 (XOR) input (fst (keystream (length input) 0 0 perm)))"
  using assms cipher_crypt_loop_keystream [OF assms(2), of input 0 0 "[]"]
  by (simp add: cipher_def cipher_crypt_def)

text \<open>
  Claim C2: for every key \<open>K\<close> that is not empty and every byte string \<open>M\<close>,
  \<open>cipher K M\<close> returns some \<open>C\<close>, and \<open>cipher K C\<close> returns \<open>M\<close>; each call runs
  its own key schedule from \<open>K\<close>.
\<close>

theorem cipher_round_trip:
  assumes "K \<noteq> []"
  shows "\<exists>C. cipher K M = Inr C \<and> cipher K C = Inr M"
proof -
  from cipher_init_ok [OF assms] obtain perm where
    p: "cipher_init K = Inr perm" "length perm = 256" by blast
  define ks where "ks = fst (keystream (length M) 0 0 perm)"
  have len: "length ks = length M" by (simp add: ks_def length_keystream)
  have enc: "cipher K M = Inr (map2 (XOR) M ks)"
    using cipher_keystream [OF p] by (simp add: ks_def)
  have "cipher K (map2 (XOR) M ks) = Inr (map2 (XOR) (map2 (XOR) M ks) ks)"
    using cipher_keystream [OF p, of "map2 (XOR) M ks"] len by (simp add: ks_def)
  then have dec: "cipher K (map2 (XOR) M ks) = Inr M"
    using map2_xor_twice [OF len] by simp
  from enc dec show ?thesis by simp
qed

text \<open>The round trip for the token-derived message of the handshake, \<open>AUTH_MAGIC2\<close>.\<close>

theorem cipher_round_trip_witness:
  "[0x01, 0x5C, 0xCB, 0xA8, 0x80, 0x0A, 0xBD, 0xC1, 0x2E, 0xB8, 0xED, 0x82] \<noteq> ([] :: byte list) \<and>
   (\<exists>C. cipher [0x01, 0x5C, 0xCB, 0xA8, 0x80, 0x0A, 0xBD, 0xC1, 0x2E, 0xB8, 0xED, 0x82]
            [0x92, 0xAB, 0x54, 0xFA] = Inr C \<and>
        cipher [0x01, 0x5C, 0xCB, 0xA8, 0x80, 0x0A, 0xBD, 0xC1, 0x2E, 0xB8, 0xED, 0x82] C =
          Inr [0x92, 0xAB, 0x54, 0xFA])"
  using cipher_round_trip
    [of "[0x01, 0x5C, 0xCB, 0xA8, 0x80, 0x0A, 0xBD, 0xC1, 0x2E, 0xB8, 0xED, 0x82]"
        "[0x92, 0xAB, 0x54, 0xFA]"]
  by simp

text \<open>
  Claim C10: for every key \<open>K\<close> that is not empty and every input \<open>D\<close>, \<open>cipher K D\<close>
  returns a byte string as long as \<open>D\<close>; it is the output of \<open>_cipher_crypt\<close> on the
  table that \<open>_cipher_init\<close> builds from \<open>K\<close> inside the call, so calls with equal
  key and input return equal outputs.
\<close>

theorem cipher_length_and_fresh_table:
  assumes "K \<noteq> []"
  shows "\<exists>out perm perm'.
           cipher_init K = Inr perm \<and> cipher_crypt D perm = Inr (out, perm') \<and>
           cipher K D = Inr out \<and> length out = length D \<and>
           (\<forall>K' D'. K' = K \<and> D' = D \<longrightarrow> cipher K' D' = Inr out)"
proof -
  from cipher_init_ok [OF assms] obtain perm where
    p: "cipher_init K = Inr perm" "length perm = 256" by blast
  define out where "out = map2 (XOR) D (fst (keystream (length D) 0 0 perm))"
  have crypt: "cipher_crypt D perm = Inr (out, snd (keystream (length D) 0 0 perm))"
    using cipher_crypt_loop_keystream [OF p(2), of D 0 0 "[]"]
    by (simp add: cipher_crypt_def out_def)
  have c: "cipher K D = Inr out"
    using cipher_keystream [OF p] by (simp add: out_def)
  have l: "length out = length D"
    by (simp add: out_def length_keystream)
  from p(1) crypt c l show ?thesis by blast
qed

text \<open>The claim for the kettle's default token as key and \<open>AUTH_MAGIC2\<close> as input.\<close>

theorem cipher_length_and_fresh_table_witness:
  "[0x01, 0x5C, 0xCB, 0xA8, 0x80, 0x0A, 0xBD, 0xC1, 0x2E, 0xB8, 0xED, 0x82] \<noteq> ([] :: byte list) \<and>
   (\<exists>out. cipher [0x01, 0x5C, 0xCB, 0xA8, 0x80, 0x0A, 0xBD, 0xC1, 0x2E, 0xB8, 0xED, 0x82]
              [0x92, 0xAB, 0x54, 0xFA] = Inr out \<and>
          length out = 4)"
  using cipher_length_and_fresh_table
    [of "[0x01, 0x5C, 0xCB, 0xA8, 0x80, 0x0A, 0xBD, 0xC1, 0x2E, 0xB8, 0xED, 0x82]"
        "[0x92, 0xAB, 0x54, 0xFA]"]
  by auto

section \<open>The kettle's handle loop\<close>

text \<open>
  The kettle has a sensor entity named \<open>temperature\<close>, so \<open>_notify_state\<close> always
  publishes: the temperature and the link quality, to \<open><unique_id>/state\<close>.
\<close>

lemma notify_state_eq:
  "notify_state self st =
     [Publish (unique_id self @ ''/state'')
        [(''temperature'', transform_value self (temperature st)),
         (''linkquality'', linkquality self)]]"
  by (simp add: notify_state_def entities_def SENSOR_DOMAIN_def TEMPERATURE_ENTITY_def)

lemma handle_loop_absent:
  "\<forall>e\<in>set envs. state_now e = None \<Longrightarrow>
   handle_loop self send_time envs =
     concat (replicate (length envs) [UpdateDeviceData, Sleep ACTIVE_SLEEP_INTERVAL])"
  by (induction envs arbitrary: send_time) (simp_all add: handle_iteration_def send_due_def)

text \<open>
  Claim C8: for every number of consecutive passes of the handle loop in which the
  kettle's state is still \<open>None\<close>, none of the passes publishes.
\<close>

theorem handle_never_publishes_absent_state:
  "\<forall>e\<in>set envs. state_now e = None \<Longrightarrow> \<forall>ev\<in>set (handle self envs). \<not> is_publish ev"
  by (simp add: handle_def handle_loop_absent)

text \<open>Three passes before the first notification: update and sleep only.\<close>

theorem handle_never_publishes_absent_state_witness:
  "list_all (\<lambda>e. state_now e = None)
     [\<lparr>state_now = None, time_check = double_of_int 1, time_send = double_of_int 1\<rparr>,
      \<lparr>state_now = None, time_check = double_of_int 2, time_send = double_of_int 2\<rparr>,
      \<lparr>state_now = None, time_check = double_of_int 40, time_send = double_of_int 40\<rparr>] \<and>
   \<not> list_ex is_publish
       (handle \<lparr>unique_id = ''mikettle_aabbccddeeff'', linkquality = (70::int),
                transform_value = (\<lambda>v. v)\<rparr>
          [\<lparr>state_now = None, time_check = double_of_int 1, time_send = double_of_int 1\<rparr>,
           \<lparr>state_now = None, time_check = double_of_int 2, time_send = double_of_int 2\<rparr>,
           \<lparr>state_now = None, time_check = double_of_int 40,
            time_send = double_of_int 40\<rparr>])"
  using handle_never_publishes_absent_state
    [of "[\<lparr>state_now = None, time_check = double_of_int 1, time_send = double_of_int 1\<rparr>,
          \<lparr>state_now = None, time_check = double_of_int 2, time_send = double_of_int 2\<rparr>,
          \<lparr>state_now = None, time_check = double_of_int 40,
           time_send = double_of_int 40\<rparr>]"
        "\<lparr>unique_id = ''mikettle_aabbccddeeff'', linkquality = (70::int),
          transform_value = (\<lambda>v. v)\<rparr>"]
  by (simp add: list_ex_iff)

text \<open>Differences of clock readings, as the machine computes them.\<close>

lemma double_sub_130_100:
  "double_sub (double_of_int 130) (double_of_int 100) = Double 30 0"
  by (simp add: double_sub_def double_of_int_def round_double_def Let_def)

lemma double_sub_131_100:
  "double_sub (double_of_int 131) (double_of_int 100) = Double 31 0"
  by (simp add: double_sub_def double_of_int_def round_double_def Let_def)

text \<open>
  The doubles nearest to 30.1 and to 0.1 are \<open>8472396798990746 * 2 ^ -48\<close> and
  \<open>7205759403792794 * 2 ^ -56\<close>. Their exact difference is a little more than 30;
  the computed difference is rounded, and is 30 (\<open>8444249301319680 * 2 ^ -48\<close>).
\<close>

lemma double_sub_rounds_to_thirty:
  "double_sub (Double 8472396798990746 (- 48)) (Double 7205759403792794 (- 56)) =
     Double 8444249301319680 (- 48)"
  by (simp add: double_sub_def round_double_def round_nearest_even_def Let_def)

lemma exact_difference_above_thirty:
  "8444249301319680 = 30 * (2::int) ^ 48 \<and>
   30 * 2 ^ 56 < 8472396798990746 * 2 ^ 8 - (7205759403792794 :: int)"
  by simp

text \<open>
  Claim C9, as amended: in each pass of the handle loop in which the recorded publish
  time, if there is one, is not the clock reading zero, a state publish occurs if and
  only if the state is present and either no publish has occurred yet (\<open>send_time\<close> is
  \<open>None\<close>) or the difference \<open>time.time() - send_time\<close>, as computed in double
  precision, is more than 30 seconds; when it occurs, the object with \<open>temperature\<close>
  and \<open>linkquality\<close> is published to \<open><unique_id>/state\<close> and the clock reading is
  recorded as \<open>send_time\<close>; otherwise \<open>send_time\<close> is kept.
\<close>

theorem handle_iteration_publish_gate:
  assumes "\<forall>t. send_time = Some t \<longrightarrow> mantissa t \<noteq> 0"
  shows "handle_iteration self send_time env =
     (if state_now env \<noteq> None \<and>
         (send_time = None \<or>
          double_gt_int (double_sub (time_check env) (the send_time)) 30)
      then ([UpdateDeviceData,
             Publish (unique_id self @ ''/state'')
               [(''temperature'', transform_value self (temperature (the (state_now env)))),
                (''linkquality'', linkquality self)],
             Sleep 1],
            Some (time_send env))
      else ([UpdateDeviceData, Sleep 1], send_time))"
  using assms
  by (cases send_time)
     (simp_all add: handle_iteration_def send_due_def falsy_time_def notify_state_eq
        SEND_INTERVAL_def ACTIVE_SLEEP_INTERVAL_def)

text \<open>A pass 31 seconds after the last publish, with the state present: it publishes.\<close>

theorem handle_iteration_publish_gate_witness:
  "mantissa (double_of_int 100) \<noteq> 0 \<and>
   handle_iteration
     \<lparr>unique_id = ''mikettle_aabbccddeeff'', linkquality = (70::int),
      transform_value = (\<lambda>v. v)\<rparr>
     (Some (double_of_int 100))
     \<lparr>state_now = Some \<lparr>mode = Mode_HEATING, led_mode = LEDMode_BOIL, temperature = 45,
                        target_temperature = 100, keep_warm_type = BOIL_AND_COOLDOWN,
                        keep_warm_time = 5\<rparr>,
      time_check = double_of_int 131, time_send = double_of_int 131\<rparr> =
   ([UpdateDeviceData,
     Publish ''mikettle_aabbccddeeff/state'' [(''temperature'', 45), (''linkquality'', 70)],
     Sleep 1],
    Some (double_of_int 131))"
  using handle_iteration_publish_gate
    [of "Some (double_of_int 100)"
        "\<lparr>unique_id = ''mikettle_aabbccddeeff'', linkquality = (70::int),
          transform_value = (\<lambda>v. v)\<rparr>"
        "\<lparr>state_now = Some \<lparr>mode = Mode_HEATING, led_mode = LEDMode_BOIL, temperature = 45,
                        target_temperature = 100, keep_warm_type = BOIL_AND_COOLDOWN,
                        keep_warm_time = 5\<rparr>,
          time_check = double_of_int 131, time_send = double_of_int 131\<rparr>"]
  by (simp add: double_sub_131_100 double_gt_int_def) (simp add: double_of_int_def)

text \<open>
  Claim C9 as stated fails: with the state present and exactly 30 seconds since the last
  publish (readings 100 and 130, whose difference is computed exactly), "at least 30
  seconds have elapsed", yet the pass publishes nothing and keeps the old \<open>send_time\<close>.
\<close>

theorem handle_iteration_exactly_thirty_seconds:
  "double_sub (double_of_int 130) (double_of_int 100) = double_of_int 30 \<and>
   handle_iteration
     \<lparr>unique_id = ''mikettle_aabbccddeeff'', linkquality = (70::int),
      transform_value = (\<lambda>v. v)\<rparr>
     (Some (double_of_int 100))
     \<lparr>state_now = Some \<lparr>mode = Mode_HEATING, led_mode = LEDMode_BOIL, temperature = 45,
                        target_temperature = 100, keep_warm_type = BOIL_AND_COOLDOWN,
                        keep_warm_time = 5\<rparr>,
      time_check = double_of_int 130, time_send = double_of_int 130\<rparr> =
   ([UpdateDeviceData, Sleep 1], Some (double_of_int 100))"
  by (simp add: handle_iteration_def send_due_def falsy_time_def SEND_INTERVAL_def
      ACTIVE_SLEEP_INTERVAL_def double_sub_130_100 double_gt_int_def)
     (simp add: double_of_int_def)

text \<open>
  The same at readings that are not whole numbers: 30.1 seconds after a publish at 0.1
  the computed difference is 30, and the pass publishes nothing.
\<close>

lemma handle_iteration_rounded_difference:
  "handle_iteration self (Some (Double 7205759403792794 (- 56)))
     \<lparr>state_now = Some st, time_check = Double 8472396798990746 (- 48),
      time_send = Double 8472396798990746 (- 48)\<rparr> =
   ([UpdateDeviceData, Sleep 1], Some (Double 7205759403792794 (- 56)))"
  by (simp add: handle_iteration_def send_due_def falsy_time_def SEND_INTERVAL_def
      ACTIVE_SLEEP_INTERVAL_def double_sub_rounds_to_thirty double_gt_int_def)

section \<open>The dispatch loop\<close>

lemma removeprefix_append: "removeprefix p (p @ s) = s"
  by (simp add: removeprefix_def)

lemma in_bridge_topics_iff:
  "(t \<in> set (Ble2Mqtt_subscribed_topics reg)) =
   (\<exists>d\<in>set reg. \<exists>topic\<in>set (subscribed_topics d). t = TOPIC_ROOT @ ''/'' @ topic)"
  by (auto simp: Ble2Mqtt_subscribed_topics_def)

text \<open>
  A topic that passes the first test of the inner loop is the root prefix followed by
  some device's topic, so the search through the registry finds a device.
\<close>

lemma resolve_subscribed:
  assumes "t \<in> set (Ble2Mqtt_subscribed_topics reg)"
  shows "\<exists>dev. find (\<lambda>d. removeprefix (TOPIC_ROOT @ ''/'') t \<in> set (subscribed_topics d)) reg
               = Some dev"
proof -
  from assms obtain d topic where d: "d \<in> set reg" "topic \<in> set (subscribed_topics d)"
    and t: "t = (TOPIC_ROOT @ ''/'') @ topic"
    by (auto simp: in_bridge_topics_iff)
  have "removeprefix (TOPIC_ROOT @ ''/'') t = topic"
    unfolding t by (rule removeprefix_append)
  with d have
    "find (\<lambda>d. removeprefix (TOPIC_ROOT @ ''/'') t \<in> set (subscribed_topics d)) reg \<noteq> None"
    by (auto simp: find_None_iff)
  then show ?thesis by auto
qed

text \<open>
  Hence \<open>raise NotImplementedError('Unknown topic')\<close> is never reached, for any message
  and any number of passes.
\<close>

lemma handle_message_never_raises:
  "snd (handle_message fuel cd reg msg is_connected k) \<noteq> Raised_NotImplementedError"
proof (induction fuel arbitrary: k)
  case 0
  then show ?case by simp
next
  case (Suc fuel)
  show ?case
  proof (cases "topic_name msg \<in> set (Ble2Mqtt_subscribed_topics reg)")
    case False
    then show ?thesis using Suc.IH [of "Suc k"] by simp
  next
    case True
    from resolve_subscribed [OF True] obtain dev where
      "find (\<lambda>d. removeprefix (TOPIC_ROOT @ ''/'') (topic_name msg) \<in> set (subscribed_topics d))
         reg = Some dev"
      by blast
    then show ?thesis using True Suc.IH [of "Suc k"]
      by (auto simp: Let_def split: prod.splits sum.splits)
  qed
qed

lemma unknown_topic_not_subscribed:
  assumes "topic_name msg = TOPIC_ROOT @ ''/'' @ t"
      and "\<forall>d\<in>set reg. t \<notin> set (subscribed_topics d)"
  shows "topic_name msg \<notin> set (Ble2Mqtt_subscribed_topics reg)"
  using assms by (auto simp: in_bridge_topics_iff)

lemma handle_message_not_subscribed:
  assumes "topic_name msg \<notin> set (Ble2Mqtt_subscribed_topics reg)"
  shows "handle_message fuel cd reg msg is_connected k = ([], Looping)"
  by (induction fuel arbitrary: k) (simp_all add: assms)

text \<open>
  The task is then stuck on that message: the messages delivered after it are never
  looked at, and the \<open>sleep(1)\<close> after the inner loop is never reached.
\<close>

lemma handle_messages_stuck:
  assumes "topic_name msg \<notin> set (Ble2Mqtt_subscribed_topics reg)"
  shows "handle_messages fuel cd reg ((msg, is_connected) # rest) = ([], Looping)"
  by (simp add: handle_message_not_subscribed [OF assms])

text \<open>
  Claim C5, on the code: for a message under the root prefix whose stripped topic is in
  no registered device's \<open>subscribed_topics\<close>, the inner loop takes its first
  \<open>continue\<close> in every pass. It does not raise and it does not go on to the next
  message: after any number of passes it is still in the loop, with no event.
\<close>

theorem unknown_topic_loops_forever:
  assumes "topic_name msg = TOPIC_ROOT @ ''/'' @ t"
      and "\<forall>d\<in>set reg. t \<notin> set (subscribed_topics d)"
  shows "handle_message fuel cd reg msg is_connected k = ([], Looping)"
  using assms
  by (intro handle_message_not_subscribed unknown_topic_not_subscribed)

text \<open>
  The message \<open>ble2mqtt/plug/unknown\<close> with one registered device that subscribes to
  \<open>plug/relay/set\<close>, after 1000 passes. The payload \<open>ON\<close> is no JSON text and
  decodes to the string \<open>ON\<close>.
\<close>

theorem unknown_topic_loops_forever_witness:
  "topic_name \<lparr>topic_name = ''ble2mqtt/plug/unknown'', payload = ''ON''\<rparr> =
     TOPIC_ROOT @ ''/'' @ ''plug/unknown'' \<and>
   ''plug/unknown'' \<notin>
     set (subscribed_topics \<lparr>dev_name = ''plug'', subscribed_topics = [''plug/relay/set'']\<rparr>) \<and>
   handle_message 1000 \<lparr>json_loads = Map.empty, decode = [''ON'' \<mapsto> ''ON'']\<rparr>
     [\<lparr>dev_name = ''plug'', subscribed_topics = [''plug/relay/set'']\<rparr>]
     \<lparr>topic_name = ''ble2mqtt/plug/unknown'', payload = ''ON''\<rparr> (\<lambda>k. True) 0 =
   ([], Looping)"
  using unknown_topic_loops_forever
    [of "\<lparr>topic_name = ''ble2mqtt/plug/unknown'', payload = ''ON''\<rparr>" "''plug/unknown''"
        "[\<lparr>dev_name = ''plug'', subscribed_topics = [''plug/relay/set'']\<rparr>]"
        1000 "\<lparr>json_loads = Map.empty, decode = [''ON'' \<mapsto> ''ON'']\<rparr>" "\<lambda>k. True" 0]
  by (simp add: TOPIC_ROOT_def)






text \<open>
  A payload that is neither JSON nor valid UTF-8 (the single byte \<open>0xFF\<close>): once the
  device is connected, \<open>payload.decode()\<close> raises, the exception ends the dispatch
  loop, and \<open>process_topic\<close> is not called.
\<close>

lemma undecodable_payload_raises:
  "handle_message 2 \<lparr>json_loads = Map.empty, decode = (Map.empty :: string \<rightharpoonup> string)\<rparr>
     [\<lparr>dev_name = ''plug'', subscribed_topics = [''plug/relay/set'']\<rparr>]
     \<lparr>topic_name = ''ble2mqtt/plug/relay/set'', payload = [CHR 0xFF]\<rparr> ((<) 0) 0 =
   ([Warning ''plug/relay/set'' [CHR 0xFF]], Raised_UnicodeDecodeError)"
  by (simp add: numeral_2_eq_2 Ble2Mqtt_subscribed_topics_def TOPIC_ROOT_def
      removeprefix_def payload_value_def Let_def)

section \<open>The connection loop\<close>

text \<open>
  The clause for \<open>AccessRefusedError\<close> logs and ends without \<open>return\<close>, so the
  \<open>while True\<close> goes on with the next call of \<open>connect\<close>, at once.
\<close>

lemma connect_forever_access_refused:
  "connect_forever ri reg (a\<lparr>connect_raises := Some AccessRefusedError\<rparr> # rest) =
     (Connect # Log ''Access refused'' # fst (connect_forever ri reg rest),
      snd (connect_forever ri reg rest))"
  by (simp add: try_body_def split: prod.splits)

text \<open>
  Claim C3, on the code: the broker refuses access at the first attempt and at the second.
  The loop logs the first refusal and calls \<open>connect\<close> again; after the second refusal
  it is at the top of the loop once more, about to make a third attempt. It has not
  returned.
\<close>

theorem access_refused_connects_again:
  "connect_forever 10 [\<lparr>dev_name = ''plug'', subscribed_topics = [''plug/relay/set'']\<rparr>]
     [\<lparr>connect_raises = Some AccessRefusedError, publish_online_raises = None,
       disconnect_reason_raises = None\<rparr>,
      \<lparr>connect_raises = Some AccessRefusedError, publish_online_raises = None,
       disconnect_reason_raises = None\<rparr>] =
     ([Connect, Log ''Access refused'', Connect, Log ''Access refused''], NextAttempt) \<and>
   connect_attempts
     (fst (connect_forever 10
             [\<lparr>dev_name = ''plug'', subscribed_topics = [''plug/relay/set'']\<rparr>]
             [\<lparr>connect_raises = Some AccessRefusedError, publish_online_raises = None,
               disconnect_reason_raises = None\<rparr>,
              \<lparr>connect_raises = Some AccessRefusedError, publish_online_raises = None,
               disconnect_reason_raises = None\<rparr>])) = 2"
  by (simp add: try_body_def connect_attempts_def)

text \<open>
  The sibling clause for \<open>ConnectionCloseForcedError\<close> has the \<open>return\<close>: one
  attempt, and the loop ends.
\<close>

lemma connection_close_forced_returns:
  "connect_forever ri reg (a\<lparr>connect_raises := Some ConnectionCloseForcedError\<rparr> # rest) =
     ([Connect, Log ''Connection close forced''], Returned)"
  by (simp add: try_body_def)

section \<open>The device supervisor\<close>




text \<open>
  The cycles the amended claim leaves out. When the handle task is already done,
  \<open>continue\<close> inside \<open>finally\<close> skips the unsubscribe and the sleep. When the \<open>try\<close>
  block raises before the handle task is created, \<open>pop(device)\<close> finds no entry and
  raises KeyError, which ends \<open>manage_device\<close>: so for \<open>init\<close> raising, and so for the
  kettle of kettle\_xiaomi.py, whose \<open>handle\<close> needs \<open>send_config\<close> as well and
  rejects the call with TypeError in every cycle. When awaiting the cancelled task raises
  another exception, nothing is unsubscribed; when the unsubscribe raises, no sleep
  follows.
\<close>

lemma manage_device_task_done:
  "manage_device \<lparr>dev_name = ''plug'', subscribed_topics = [''plug/relay/set'']\<rparr> Map.empty
     [\<lparr>connect_fails = False, send_config_fails = False, init_fails = False,
       subscribe_fails = False, handle_call_fails = False,
       disconnected_future_raises = False, task_done = True,
       await_task_end = TaskReturned, unsubscribe_fails = False\<rparr>] =
   ([DevConnect, SendDeviceConfig, DevInit, Subscribe [''ble2mqtt/plug/relay/set''],
     CreateHandleTask, AwaitDisconnected],
    NextCycle)"
  by (simp add: serve_body_def device_topics_def TOPIC_ROOT_def)

lemma manage_device_init_raised:
  "manage_device \<lparr>dev_name = ''plug'', subscribed_topics = [''plug/relay/set'']\<rparr> Map.empty
     [\<lparr>connect_fails = False, send_config_fails = False, init_fails = True,
       subscribe_fails = False, handle_call_fails = False,
       disconnected_future_raises = False, task_done = False,
       await_task_end = TaskCancelled, unsubscribe_fails = False\<rparr>] =
   ([DevConnect, SendDeviceConfig, DevInit], Died PopKeyError)"
  by (simp add: serve_body_def)

lemma manage_device_handle_call_rejected:
  assumes "\<not> connect_fails c" "\<not> send_config_fails c" "\<not> init_fails c"
      and "\<not> subscribe_fails c" "handle_call_fails c" "handles (dev_name dev) = None"
  shows "manage_device dev handles (c # cs) =
     ([DevConnect, SendDeviceConfig, DevInit, Subscribe (device_topics dev)],
      Died PopKeyError)"
  using assms by (simp add: serve_body_def)

lemma manage_device_kettle:
  "manage_device \<lparr>dev_name = ''mikettle'', subscribed_topics = []\<rparr> Map.empty
     [\<lparr>connect_fails = False, send_config_fails = False, init_fails = False,
       subscribe_fails = False, handle_call_fails = True,
       disconnected_future_raises = False, task_done = False,
       await_task_end = TaskCancelled, unsubscribe_fails = False\<rparr>] =
   ([DevConnect, SendDeviceConfig, DevInit, Subscribe []], Died PopKeyError)"
  by (simp add: serve_body_def device_topics_def)

lemma manage_device_await_task_raised:
  assumes "\<not> connect_fails c" "\<not> send_config_fails c" "\<not> init_fails c"
      and "\<not> subscribe_fails c" "\<not> handle_call_fails c" "\<not> task_done c"
      and "await_task_end c = TaskRaised"
  shows "manage_device dev handles (c # cs) =
     ([DevConnect, SendDeviceConfig, DevInit, Subscribe (device_topics dev),
       CreateHandleTask, AwaitDisconnected, CancelTask, AwaitTask],
      Died HandleTaskError)"
  using assms by (simp add: serve_body_def)

lemma manage_device_unsubscribe_raised:
  assumes "\<not> connect_fails c" "\<not> send_config_fails c" "\<not> init_fails c"
      and "\<not> subscribe_fails c" "\<not> handle_call_fails c" "\<not> task_done c"
      and "await_task_end c \<noteq> TaskRaised" "unsubscribe_fails c"
  shows "manage_device dev handles (c # cs) =
     ([DevConnect, SendDeviceConfig, DevInit, Subscribe (device_topics dev),
       CreateHandleTask, AwaitDisconnected, CancelTask, AwaitTask,
       Unsubscribe (device_topics dev)],
      Died UnsubscribeError)"
  using assms by (simp add: serve_body_def)

end
